theory Spec2Isabelle
  imports Complex_Main
begin

section \<open>The main window of the four-bar application (FourBar\_App.py)\<close>

text \<open>
  \<^verbatim>\<open>MainWindow\<close> owns five spin boxes created by \<^verbatim>\<open>_initControls\<close>, reads a sixth
  (\<^verbatim>\<open>nud_InputAngle\<close>, from the generated form), keeps the flag \<^verbatim>\<open>mouseDown\<close>, and
  delegates everything else to the controller \<^verbatim>\<open>FBL_C\<close>. The controller class is not part
  of this file, so a call to it is recorded, with its arguments, in the order it is made;
  the same record holds the message boxes and the log entries the window produces.
  Spin-box values are Python floats; they are modelled as reals.
\<close>

datatype py_exception = ZeroDivisionError | ValueError

datatype mouse_button = LeftButton | RightButton | MiddleButton

datatype scene_event =
    GraphicsSceneMouseMove "real \<times> real" "int \<times> int"
  | GraphicsSceneWheel int
  | GraphicsSceneMousePress mouse_button
  | GraphicsSceneMouseRelease mouse_button
  | OtherSceneEvent

datatype effect =
    SetAngleLimits real real
  | SetDampingCoefficient real
  | SetMass real
  | SetSpringConstant real
  | StartSimulation real real real real
  | PauseResumeSimulation
  | ResetTracers
  | MoveLinkage "real \<times> real"
  | ZoomStepUp
  | ZoomStepDown
  | SetWindowTitle "int \<times> int" "real \<times> real"
  | WarningBox real
  | LogError string py_exception

record main_window =
  nud_InputAngle :: real
  nud_MinAngle :: real
  nud_MaxAngle :: real
  nud_Damping :: real
  nud_Mass :: real
  nud_Spring :: real
  mouseDown :: bool
  trace :: "effect list"

definition emit :: "effect \<Rightarrow> main_window \<Rightarrow> main_window" where
  "emit e w = w\<lparr>trace := trace w @ [e]\<rparr>"

text \<open>
  \<^verbatim>\<open>_initControls\<close>: the defaults of the five spin boxes (ranges: angles \<open>-360..360\<close>,
  damping \<open>0..1000\<close>, mass \<open>0.1..100\<close>, spring \<open>0..1000\<close>). The input angle comes from the
  form and is a parameter here.
\<close>

definition initControls :: "real \<Rightarrow> main_window" where
  "initControls input_angle =
     \<lparr>nud_InputAngle = input_angle, nud_MinAngle = 0, nud_MaxAngle = 180,
      nud_Damping = 50, nud_Mass = 1, nud_Spring = 100,
      mouseDown = False, trace = []\<rparr>"

subsection \<open>updateAngleLimits\<close>

text \<open>
  Both angle spin boxes have \<^verbatim>\<open>valueChanged\<close> connected to \<^verbatim>\<open>updateAngleLimits\<close>, and
  \<^verbatim>\<open>setValue\<close> emits that signal synchronously whenever it changes the value. The two
  \<^verbatim>\<open>setValue\<close> calls of the swap branch therefore re-enter the handler before the outer
  call reaches \<^verbatim>\<open>setAngleLimits\<close>; the recursion below is that re-entrancy. The values
  written were read from the boxes, so they are within range and precision and are
  stored as they are.
\<close>

function (domintros) updateAngleLimits :: "main_window \<Rightarrow> main_window" where
  "updateAngleLimits w =
     (if nud_MinAngle w > nud_MaxAngle w then
        emit (SetAngleLimits (nud_MaxAngle w) (nud_MinAngle w))
          (let w1 = (if nud_MaxAngle w = nud_MinAngle w then w
                     else updateAngleLimits (w\<lparr>nud_MinAngle := nud_MaxAngle w\<rparr>))
           in if nud_MinAngle w = nud_MaxAngle w1 then w1
              else updateAngleLimits (w1\<lparr>nud_MaxAngle := nud_MinAngle w\<rparr>))
      else emit (SetAngleLimits (nud_MinAngle w) (nud_MaxAngle w)) w)"
  by pat_completeness auto

lemma updateAngleLimits_dom_ordered:
  "nud_MinAngle w \<le> nud_MaxAngle w \<Longrightarrow> updateAngleLimits_dom w"
  by (rule updateAngleLimits.domintros) simp_all

lemma updateAngleLimits_psimp_ordered:
  "nud_MinAngle w \<le> nud_MaxAngle w \<Longrightarrow>
   updateAngleLimits w = emit (SetAngleLimits (nud_MinAngle w) (nud_MaxAngle w)) w"
  by (simp add: updateAngleLimits.psimps [OF updateAngleLimits_dom_ordered])

lemma updateAngleLimits_total: "updateAngleLimits_dom w"
proof (cases "nud_MinAngle w \<le> nud_MaxAngle w")
  case True
  then show ?thesis by (rule updateAngleLimits_dom_ordered)
next
  case False
  let ?w1 = "w\<lparr>nud_MinAngle := nud_MaxAngle w\<rparr>"
  have first: "updateAngleLimits_dom ?w1"
    by (rule updateAngleLimits_dom_ordered) simp
  have inner: "updateAngleLimits ?w1 = emit (SetAngleLimits (nud_MaxAngle w) (nud_MaxAngle w)) ?w1"
    by (simp add: updateAngleLimits_psimp_ordered)
  have second: "updateAngleLimits_dom (updateAngleLimits ?w1\<lparr>nud_MaxAngle := nud_MinAngle w\<rparr>)"
    using False by (intro updateAngleLimits_dom_ordered) (simp add: inner emit_def)
  show ?thesis
    by (rule updateAngleLimits.domintros) (use first second in simp_all)
qed

termination updateAngleLimits
  by (rule allI) (rule updateAngleLimits_total)

declare updateAngleLimits.simps [simp del]

fun limits_ordered :: "effect \<Rightarrow> bool" where
  "limits_ordered (SetAngleLimits lo hi) = (lo \<le> hi)"
| "limits_ordered _ = False"

subsection \<open>updateDamping, updateMass, updateSpring, resetTracers\<close>

definition updateDamping :: "main_window \<Rightarrow> main_window" where
  "updateDamping w = emit (SetDampingCoefficient (nud_Damping w)) w"

definition updateMass :: "main_window \<Rightarrow> main_window" where
  "updateMass w = emit (SetMass (nud_Mass w)) w"

definition updateSpring :: "main_window \<Rightarrow> main_window" where
  "updateSpring w = emit (SetSpringConstant (nud_Spring w)) w"

definition resetTracers :: "main_window \<Rightarrow> main_window" where
  "resetTracers w = emit ResetTracers w"

subsection \<open>startSimulation\<close>

text \<open>
  \<^verbatim>\<open>zeta = c / (2 * math.sqrt(k * m))\<close>: \<^verbatim>\<open>math.sqrt\<close> raises \<^verbatim>\<open>ValueError\<close> on a negative
  argument and float division raises \<^verbatim>\<open>ZeroDivisionError\<close> on a zero divisor. Both are
  branches of the model; the handler's \<^verbatim>\<open>except Exception\<close> turns either into a log
  entry, and the statements after the raise are skipped.
\<close>

definition math_sqrt :: "real \<Rightarrow> py_exception + real" where
  "math_sqrt x = (if x < 0 then Inl ValueError else Inr (sqrt x))"

definition float_div :: "real \<Rightarrow> real \<Rightarrow> py_exception + real" where
  "float_div a b = (if b = 0 then Inl ZeroDivisionError else Inr (a / b))"

definition damping_ratio :: "real \<Rightarrow> real \<Rightarrow> real \<Rightarrow> py_exception + real" where
  "damping_ratio m k c =
     (case math_sqrt (k * m) of
        Inl e \<Rightarrow> Inl e
      | Inr r \<Rightarrow> float_div c (2 * r))"

definition startSimulation :: "main_window \<Rightarrow> main_window" where
  "startSimulation w =
     (let initial_angle = nud_InputAngle w;
          m = nud_Mass w; k = nud_Spring w; c = nud_Damping w
      in case damping_ratio m k c of
           Inl e \<Rightarrow> emit (LogError ''startSimulation'' e) w
         | Inr zeta \<Rightarrow>
             emit (StartSimulation initial_angle m k c)
               (if zeta < 1 / 2 then emit (WarningBox zeta) w else w))"

subsection \<open>eventFilter\<close>

text \<open>
  The first argument says whether the watched object is the graphics scene. The result
  is what the base class's filter returns, \<open>False\<close>: the event is passed on.
\<close>

definition eventFilter :: "bool \<Rightarrow> scene_event \<Rightarrow> main_window \<Rightarrow> bool \<times> main_window" where
  "eventFilter obj_is_scene event w =
     (if obj_is_scene then
        (case event of
           GraphicsSceneMouseMove scenePos screenPos \<Rightarrow>
             (let w1 = emit (SetWindowTitle screenPos scenePos) w
              in (False, if mouseDown w1 then emit (MoveLinkage scenePos) w1 else w1))
         | GraphicsSceneWheel delta \<Rightarrow>
             (False, emit (if delta > 0 then ZoomStepUp else ZoomStepDown) w)
         | GraphicsSceneMousePress b \<Rightarrow>
             (False, if b = LeftButton then w\<lparr>mouseDown := True\<rparr> else w)
         | GraphicsSceneMouseRelease b \<Rightarrow>
             (False, startSimulation (w\<lparr>mouseDown := False\<rparr>))
         | OtherSceneEvent \<Rightarrow> (False, w))
      else (False, w))"

section \<open>The kinematics solver\<close>

text \<open>
  The controller and the model it drives (module \<^verbatim>\<open>FourBarLinkage_MVC\<close>) are not among
  the sources; the main window only calls them. What follows is written from the
  specification of the solver, sections 3, 4.1, 7 and 8. Angles are in radians.
\<close>

text \<open>
  Modelled from the spec: the error taxonomy of section 7. None of these errors is
  raised or named in the sources.
\<close>

datatype core_error =
    InvalidParameter
  | LinkageUnreachable
  | SolverDidNotConverge
  | InvalidOscillatorParameters

text \<open>
  Modelled from the spec: \<open>FourBarLinkage\<close> of section 3, reduced to the four link lengths
  and the input-angle limits.
\<close>

record linkage =
  groundLink :: real
  inputLink :: real
  couplerLink :: real
  outputLink :: real
  minAngle :: real
  maxAngle :: real

text \<open>
  Modelled from the spec: the quadrilateral inequality of section 4.1, "no single link
  longer than the sum of the other three". The solver's feasibility check is missing
  from the sources.
\<close>

definition quadrilateral :: "linkage \<Rightarrow> bool" where
  "quadrilateral L =
     (groundLink L \<le> inputLink L + couplerLink L + outputLink L \<and>
      inputLink L \<le> groundLink L + couplerLink L + outputLink L \<and>
      couplerLink L \<le> groundLink L + inputLink L + outputLink L \<and>
      outputLink L \<le> groundLink L + inputLink L + couplerLink L)"

text \<open>
  Modelled from the spec: the loop-closure residual, "the magnitude of the vector sum of
  the four link vectors". The input pivot is the origin and the ground link lies on the
  x axis; the input link and the coupler run from the input pivot to the coupler's far
  end, the ground link and the output link run to the output link's far end, and the
  residual is the distance between the two ends.
\<close>

definition loop_residual :: "linkage \<Rightarrow> real \<Rightarrow> real \<Rightarrow> real \<Rightarrow> real" where
  "loop_residual L inputAngle couplerAngle outputAngle =
     sqrt ((inputLink L * cos inputAngle + couplerLink L * cos couplerAngle
              - outputLink L * cos outputAngle - groundLink L)\<^sup>2
         + (inputLink L * sin inputAngle + couplerLink L * sin couplerAngle
              - outputLink L * sin outputAngle)\<^sup>2)"

text \<open>
  Modelled from the spec: the tolerance "1e-6 of link-length scale" of section 8, the
  scale taken to be the longest link.
\<close>

definition tolerance :: "linkage \<Rightarrow> real" where
  "tolerance L =
     max (max (groundLink L) (inputLink L)) (max (couplerLink L) (outputLink L)) / 1000000"

text \<open>
  Modelled from the spec: clamping an angle into \<open>[minAngle, maxAngle]\<close> (sections 4.1
  and 4.3).
\<close>

definition clamp_angle :: "real \<Rightarrow> real \<Rightarrow> real \<Rightarrow> real" where
  "clamp_angle lo hi a = (if a < lo then lo else if hi < a then hi else a)"

text \<open>
  The iterative root finder is left open by the specification ("e.g., Newton or a
  bounded nonlinear solver"): it is a parameter. Given the linkage, the input angle and
  the previous solution as seed it either proposes a pair (coupler angle, output angle)
  or gives up within its iteration cap.
\<close>

type_synonym root_finder = "linkage \<Rightarrow> real \<Rightarrow> real \<times> real \<Rightarrow> (real \<times> real) option"

text \<open>
  Modelled from the spec: \<^verbatim>\<open>solve(linkage, inputAngle)\<close> of section 4.1, missing from the
  sources. Lengths that violate the quadrilateral inequality fail with
  \<open>LinkageUnreachable\<close>; the input angle is clamped before solving; a root finder that
  does not converge, or whose answer leaves a residual above the tolerance, signals
  \<open>SolverDidNotConverge\<close>.
\<close>

definition solve ::
  "root_finder \<Rightarrow> linkage \<Rightarrow> real \<times> real \<Rightarrow> real \<Rightarrow> core_error + real \<times> real" where
  "solve finder L seed inputAngle =
     (if \<not> quadrilateral L then Inl LinkageUnreachable
      else
        let a = clamp_angle (minAngle L) (maxAngle L) inputAngle
        in case finder L a seed of
             None \<Rightarrow> Inl SolverDidNotConverge
           | Some (couplerAngle, outputAngle) \<Rightarrow>
               if loop_residual L a couplerAngle outputAngle \<le> tolerance L
               then Inr (couplerAngle, outputAngle)
               else Inl SolverDidNotConverge)"

section \<open>Properties of the main window\<close>

lemma updateAngleLimits_swapped:
  assumes "nud_MaxAngle w < nud_MinAngle w"
  shows "updateAngleLimits w =
           w\<lparr>nud_MinAngle := nud_MaxAngle w, nud_MaxAngle := nud_MinAngle w,
             trace := trace w @ [SetAngleLimits (nud_MaxAngle w) (nud_MaxAngle w),
                                 SetAngleLimits (nud_MaxAngle w) (nud_MinAngle w),
                                 SetAngleLimits (nud_MaxAngle w) (nud_MinAngle w)]\<rparr>"
proof -
  let ?w1 = "w\<lparr>nud_MinAngle := nud_MaxAngle w\<rparr>"
  have inner1: "updateAngleLimits ?w1 = emit (SetAngleLimits (nud_MaxAngle w) (nud_MaxAngle w)) ?w1"
    by (simp add: updateAngleLimits_psimp_ordered)
  let ?w2 = "(updateAngleLimits ?w1)\<lparr>nud_MaxAngle := nud_MinAngle w\<rparr>"
  have inner2: "updateAngleLimits ?w2 = emit (SetAngleLimits (nud_MaxAngle w) (nud_MinAngle w)) ?w2"
    using assms by (subst updateAngleLimits_psimp_ordered) (simp_all add: inner1 emit_def)
  show ?thesis
    using assms
    by (subst updateAngleLimits.simps) (simp add: Let_def inner2, simp add: inner1 emit_def)
qed

lemma updateAngleLimits_ordered:
  "nud_MinAngle w \<le> nud_MaxAngle w \<Longrightarrow>
   updateAngleLimits w = w\<lparr>trace := trace w @ [SetAngleLimits (nud_MinAngle w) (nud_MaxAngle w)]\<rparr>"
  by (simp add: updateAngleLimits_psimp_ordered emit_def)

text \<open>
  Claim C9. Whatever the two angle spin boxes hold, every call \<^verbatim>\<open>updateAngleLimits\<close> makes
  to the controller is a \<^verbatim>\<open>setAngleLimits(lo, hi)\<close> with \<open>lo \<le> hi\<close>, nothing is logged or
  rejected, the last call passes the smaller value as minimum and the larger as maximum,
  and the spin boxes end up holding the two values in that order. The calls made by the
  re-entered handler while the boxes are being rewritten are among those covered.
\<close>

theorem updateAngleLimits_passes_ordered_limits:
  "list_all limits_ordered (drop (length (trace w)) (trace (updateAngleLimits w)))
   \<and> last (trace (updateAngleLimits w)) =
       SetAngleLimits (min (nud_MinAngle w) (nud_MaxAngle w)) (max (nud_MinAngle w) (nud_MaxAngle w))
   \<and> nud_MinAngle (updateAngleLimits w) = min (nud_MinAngle w) (nud_MaxAngle w)
   \<and> nud_MaxAngle (updateAngleLimits w) = max (nud_MinAngle w) (nud_MaxAngle w)"
proof (cases "nud_MinAngle w \<le> nud_MaxAngle w")
  case True
  then show ?thesis by (simp add: updateAngleLimits_ordered)
next
  case False
  then have "nud_MaxAngle w < nud_MinAngle w" by simp
  then show ?thesis by (simp add: updateAngleLimits_swapped)
qed

text \<open>
  With 200 entered as minimum against the default maximum 180, the handler re-enters
  twice and reaches the controller three times, each time with ordered limits.
\<close>

theorem updateAngleLimits_passes_ordered_limits_witness:
  "trace (updateAngleLimits (initControls 0\<lparr>nud_MinAngle := 200\<rparr>)) =
     [SetAngleLimits 180 180, SetAngleLimits 180 200, SetAngleLimits 180 200]
   \<and> list_all limits_ordered (trace (updateAngleLimits (initControls 0\<lparr>nud_MinAngle := 200\<rparr>)))
   \<and> nud_MinAngle (updateAngleLimits (initControls 0\<lparr>nud_MinAngle := 200\<rparr>)) = 180
   \<and> nud_MaxAngle (updateAngleLimits (initControls 0\<lparr>nud_MinAngle := 200\<rparr>)) = 200"
  using updateAngleLimits_passes_ordered_limits [of "initControls 0\<lparr>nud_MinAngle := 200\<rparr>"]
  by (simp add: initControls_def updateAngleLimits_swapped)

lemma damping_ratio_positive:
  "0 < k * m \<Longrightarrow> damping_ratio m k c = Inr (c / (2 * sqrt (k * m)))"
  by (auto simp add: damping_ratio_def math_sqrt_def float_div_def)

lemma damping_ratio_zero:
  "k * m = 0 \<Longrightarrow> damping_ratio m k c = Inl ZeroDivisionError"
  by (auto simp add: damping_ratio_def math_sqrt_def float_div_def)

text \<open>
  Claim C3. When \<open>k\<cdot>m > 0\<close>, \<^verbatim>\<open>startSimulation\<close> computes the damping ratio
  \<open>c / (2\<cdot>sqrt (k\<cdot>m))\<close> without raising; when the ratio is below \<open>0.5\<close> it shows the warning
  box and then still calls the controller's \<^verbatim>\<open>startSimulation\<close> with the spin-box values;
  otherwise it calls the controller without a warning.
\<close>

theorem startSimulation_warns_and_starts:
  assumes "0 < nud_Spring w * nud_Mass w"
  shows "damping_ratio (nud_Mass w) (nud_Spring w) (nud_Damping w) =
           Inr (nud_Damping w / (2 * sqrt (nud_Spring w * nud_Mass w)))
       \<and> startSimulation w =
           (if nud_Damping w / (2 * sqrt (nud_Spring w * nud_Mass w)) < 1 / 2
            then w\<lparr>trace := trace w @
                      [WarningBox (nud_Damping w / (2 * sqrt (nud_Spring w * nud_Mass w))),
                       StartSimulation (nud_InputAngle w) (nud_Mass w) (nud_Spring w) (nud_Damping w)]\<rparr>
            else w\<lparr>trace := trace w @
                      [StartSimulation (nud_InputAngle w) (nud_Mass w) (nud_Spring w) (nud_Damping w)]\<rparr>)"
  using assms by (simp add: startSimulation_def damping_ratio_positive emit_def Let_def)

theorem startSimulation_warns_and_starts_witness:
  "(0::real) < 4 * 1
   \<and> damping_ratio 1 4 1 = Inr (1 / 4)
   \<and> trace (startSimulation (initControls 30\<lparr>nud_Spring := 4, nud_Damping := 1\<rparr>)) =
       [WarningBox (1 / 4), StartSimulation 30 1 4 1]"
  using startSimulation_warns_and_starts [of "initControls 30\<lparr>nud_Spring := 4, nud_Damping := 1\<rparr>"]
  by (simp add: initControls_def)

text \<open>
  What \<^verbatim>\<open>startSimulation\<close> does when \<open>k\<cdot>m = 0\<close>: the divisor \<open>2\<cdot>sqrt (k\<cdot>m)\<close> is zero, the
  division raises \<^verbatim>\<open>ZeroDivisionError\<close>, and the handler's \<^verbatim>\<open>except\<close> clause logs it. No
  warning is shown and the controller is never called.
\<close>

lemma startSimulation_zero_product:
  assumes "nud_Spring w * nud_Mass w = 0"
  shows "damping_ratio (nud_Mass w) (nud_Spring w) (nud_Damping w) = Inl ZeroDivisionError
       \<and> startSimulation w = w\<lparr>trace := trace w @ [LogError ''startSimulation'' ZeroDivisionError]\<rparr>"
  using assms by (simp add: startSimulation_def damping_ratio_zero emit_def Let_def)

text \<open>
  Claim C2 does not hold of the code. The claim wants the case \<open>k\<cdot>m = 0\<close> refused as
  invalid oscillator parameters before any division. With the default controls and the
  spring constant set to 0, the lower end of its spin box, \<^verbatim>\<open>startSimulation\<close> has no
  guard: the square root is 0, the division is carried out with divisor 0 and raises
  \<^verbatim>\<open>ZeroDivisionError\<close>, and the only effect of the start is the log entry. The damping
  ratio is needed for the warning alone, yet its failure keeps the controller from being
  started.
\<close>

theorem startSimulation_divides_by_zero:
  "math_sqrt (0 * 1) = Inr 0
   \<and> float_div 50 (2 * 0) = Inl ZeroDivisionError
   \<and> damping_ratio 1 0 50 = Inl ZeroDivisionError
   \<and> startSimulation (initControls 0\<lparr>nud_Spring := 0\<rparr>) =
       initControls 0\<lparr>nud_Spring := 0,
                      trace := [LogError ''startSimulation'' ZeroDivisionError]\<rparr>"
  by (simp add: math_sqrt_def float_div_def damping_ratio_def startSimulation_def
      initControls_def emit_def Let_def)

lemma startSimulation_mouseDown: "mouseDown (startSimulation w) = mouseDown w"
  by (simp add: startSimulation_def emit_def Let_def split: sum.split)

lemma startSimulation_positive_last:
  "0 < nud_Spring w * nud_Mass w \<Longrightarrow>
   last (trace (startSimulation w)) =
     StartSimulation (nud_InputAngle w) (nud_Mass w) (nud_Spring w) (nud_Damping w)"
  by (simp add: startSimulation_def damping_ratio_positive emit_def Let_def)

text \<open>
  What the release branch of \<^verbatim>\<open>eventFilter\<close> does: it clears \<^verbatim>\<open>mouseDown\<close> and runs
  \<^verbatim>\<open>startSimulation\<close>, whichever button was released. When \<open>k\<cdot>m > 0\<close> the last effect is the
  controller's \<^verbatim>\<open>startSimulation\<close> with the current spin-box values.
\<close>

lemma eventFilter_release:
  "eventFilter True (GraphicsSceneMouseRelease b) w =
     (False, startSimulation (w\<lparr>mouseDown := False\<rparr>))
   \<and> \<not> mouseDown (snd (eventFilter True (GraphicsSceneMouseRelease b) w))
   \<and> (0 < nud_Spring w * nud_Mass w \<longrightarrow>
        last (trace (snd (eventFilter True (GraphicsSceneMouseRelease b) w))) =
          StartSimulation (nud_InputAngle w) (nud_Mass w) (nud_Spring w) (nud_Damping w))"
proof -
  have filtered: "eventFilter True (GraphicsSceneMouseRelease b) w =
      (False, startSimulation (w\<lparr>mouseDown := False\<rparr>))"
    by (simp add: eventFilter_def)
  show ?thesis
    unfolding filtered
    using startSimulation_positive_last [of "w\<lparr>mouseDown := False\<rparr>"]
    by (simp add: startSimulation_mouseDown)
qed

text \<open>
  Claim C10 does not hold of the code. Releasing the left button after a drag, with the
  spring constant at 0: the filter clears the flag and calls \<^verbatim>\<open>startSimulation\<close>, whose
  division by zero is logged; no \<^verbatim>\<open>StartSimulation\<close> reaches the controller, so the
  simulation is not restarted and the dragged configuration stays in place.
\<close>

theorem eventFilter_release_without_restart:
  "eventFilter True (GraphicsSceneMouseRelease LeftButton)
     (initControls 45\<lparr>nud_Spring := 0, mouseDown := True\<rparr>) =
   (False, initControls 45\<lparr>nud_Spring := 0,
                           trace := [LogError ''startSimulation'' ZeroDivisionError]\<rparr>)"
  by (simp add: eventFilter_def startSimulation_def damping_ratio_zero initControls_def emit_def Let_def)

section \<open>Properties of the kinematics solver\<close>






text \<open>
  Claim C4. When the link lengths violate the quadrilateral inequality, \<open>solve\<close> fails
  with \<open>LinkageUnreachable\<close> for every input angle, root finder and seed.
\<close>

theorem solve_unreachable:
  "\<not> quadrilateral L \<Longrightarrow> solve finder L seed inputAngle = Inl LinkageUnreachable"
  by (simp add: solve_def)

text \<open>
  The scenario of the specification: input link 10, the other three links summing to 5.
\<close>

theorem solve_unreachable_witness:
  "\<not> quadrilateral \<lparr>groundLink = 2, inputLink = 10, couplerLink = 2, outputLink = 1,
                    minAngle = 0, maxAngle = pi\<rparr>
   \<and> solve (\<lambda>L a seed. Some seed)
         \<lparr>groundLink = 2, inputLink = 10, couplerLink = 2, outputLink = 1,
          minAngle = 0, maxAngle = pi\<rparr> (0, 0) 1 = Inl LinkageUnreachable"
  using solve_unreachable
          [of "\<lparr>groundLink = 2, inputLink = 10, couplerLink = 2, outputLink = 1,
                minAngle = 0, maxAngle = pi\<rparr>" "\<lambda>L a seed. Some seed" "(0, 0)" 1]
  by (simp add: quadrilateral_def)

end
